theory Spec2Isabelle
  imports
    Complex_Main
    "HOL-Library.Char_ord"
    "HOL-Library.List_Lexorder"
    "HOL-Library.Product_Lexorder"
    "HOL-Library.AList"
begin

section \<open>The crosswalk builder of \<^verbatim>\<open>scripts/build_crosswalks.py\<close>\<close>

text \<open>
  The script reads one collection of boundary features and, for every primary geography
  type, writes a longform table (one row per overlapping pair of regions) and a wide table
  (one row per primary region, one cell of names per other type).

  Geometry is the business of shapely and geopandas, which are not part of the repository.
  The development is therefore parametric in a \<^emph>\<open>toolkit\<close>: a record of the library
  operations the script calls. Areas are Python floats; they are idealised as reals, so
  rounding is outside the model. A geometry that may be Python's \<^verbatim>\<open>None\<close> is an option.
\<close>

subsection \<open>Data\<close>

text \<open>One row of the boundary collection: the columns \<^verbatim>\<open>id\<close>, \<^verbatim>\<open>nameCol\<close>, \<^verbatim>\<open>geometry\<close>.\<close>

record 'g feature =
  id_col :: string
  nameCol :: string
  geometry :: "'g option"

text \<open>
  The library calls of the script. \<open>sindex_candidates all b\<close> is
  \<^verbatim>\<open>all.iloc[list(all.sindex.intersection(b))]\<close>, the rows of the collection the spatial
  index returns for the bounding box \<open>b\<close>. \<open>union_all\<close> merges the geometry column of a
  group of rows (\<^verbatim>\<open>dissolve\<close> and \<^verbatim>\<open>union_all\<close>/\<^verbatim>\<open>unary_union\<close>).
\<close>

record ('g, 'b) toolkit =
  is_empty :: "'g \<Rightarrow> bool"
  area :: "'g \<Rightarrow> real"
  buffer :: "'g \<Rightarrow> real \<Rightarrow> 'g"
  intersection :: "'g \<Rightarrow> 'g \<Rightarrow> 'g"
  union_all :: "'g option list \<Rightarrow> 'g option"
  bounds :: "'g \<Rightarrow> 'b"
  sindex_candidates :: "'g feature list \<Rightarrow> 'b \<Rightarrow> 'g feature list"

text \<open>The exceptions the two builders can raise.\<close>

datatype error = ZeroDivisionError | AttributeError

text \<open>One row of the longform table, with the seven columns of the CSV file.\<close>

record overlap_record =
  primary_geography_id :: string
  primary_geography_namecol :: string
  other_geography_id :: string
  other_geography_namecol :: string
  primary_area :: real
  intersection_area :: real
  percentage_overlap :: real

text \<open>
  The wide table: its column names and its rows, one cell per column. A cell that a row
  has no value for would be \<open>None\<close> (pandas' NaN).
\<close>

record wide_df =
  columns :: "string list"
  data :: "string option list list"

definition empty_wide :: wide_df where
  "empty_wide = \<lparr>columns = [], data = []\<rparr>"

definition wide_is_empty :: "wide_df \<Rightarrow> bool" where
  "wide_is_empty df = (columns df = [] \<or> data df = [])"

subsection \<open>Grouping by name\<close>

text \<open>
  Both \<^verbatim>\<open>dissolve(by='nameCol')\<close> and \<^verbatim>\<open>groupby('nameCol')\<close> visit the distinct names in
  ascending order.
\<close>

definition group_names :: "'g feature list \<Rightarrow> string list" where
  "group_names geodf = sort (remdups (map nameCol geodf))"

definition name_group :: "'g feature list \<Rightarrow> string \<Rightarrow> 'g feature list" where
  "name_group geodf n = filter (\<lambda>f. nameCol f = n) geodf"

definition dissolve_by_name :: "('g, 'b) toolkit \<Rightarrow> 'g feature list \<Rightarrow> 'g feature list" where
  "dissolve_by_name tk geodf =
     (if geodf = [] then []
      else map (\<lambda>n. \<lparr>id_col = id_col (hd (name_group geodf n)),
                      nameCol = n,
                      geometry = union_all tk (map geometry (name_group geodf n))\<rparr>)
               (group_names geodf))"

definition union_by_name ::
  "('g, 'b) toolkit \<Rightarrow> 'g feature list \<Rightarrow> (string \<times> 'g option) list" where
  "union_by_name tk geodf =
     (if geodf = [] then []
      else map (\<lambda>n. (n, union_all tk (map geometry (name_group geodf n))))
               (group_names geodf))"

subsection \<open>Shared steps of the two builders\<close>

text \<open>\<^verbatim>\<open>all_gdf[all_gdf['id'] == gid]\<close>\<close>

definition rows_with_id :: "'g feature list \<Rightarrow> string \<Rightarrow> 'g feature list" where
  "rows_with_id gdf gid = filter (\<lambda>f. id_col f = gid) gdf"

text \<open>\<^verbatim>\<open>if max_primaries is not None and max_primaries > 0: head(max_primaries)\<close>\<close>

definition cap_primaries :: "int option \<Rightarrow> 'a list \<Rightarrow> 'a list" where
  "cap_primaries max_primaries primary_dissolved =
     (case max_primaries of
        None \<Rightarrow> primary_dissolved
      | Some n \<Rightarrow> if n > 0 then take (nat n) primary_dissolved else primary_dissolved)"

text \<open>\<^verbatim>\<open>p_geom_orig.buffer(buffer_feet) if buffer_feet else p_geom_orig\<close>\<close>

definition geom_for_intersection :: "('g, 'b) toolkit \<Rightarrow> real \<Rightarrow> 'g \<Rightarrow> 'g" where
  "geom_for_intersection tk buffer_feet p_geom_orig =
     (if buffer_feet \<noteq> 0 then buffer tk p_geom_orig buffer_feet else p_geom_orig)"

text \<open>\<^verbatim>\<open>float(inter_geom.area) if not inter_geom.is_empty else 0.0\<close>\<close>

definition inter_area :: "('g, 'b) toolkit \<Rightarrow> 'g \<Rightarrow> 'g \<Rightarrow> real" where
  "inter_area tk p_geom t_union =
     (let inter_geom = intersection tk p_geom t_union
      in if \<not> is_empty tk inter_geom then area tk inter_geom else 0)"

text \<open>Sequencing of two steps that each append rows or raise.\<close>

fun then_rows :: "error + 'a list \<Rightarrow> error + 'a list \<Rightarrow> error + 'a list" where
  "then_rows (Inl e) _ = Inl e"
| "then_rows (Inr xs) (Inl e) = Inl e"
| "then_rows (Inr xs) (Inr ys) = Inr (xs @ ys)"

subsection \<open>The longform builder\<close>

text \<open>
  The row appended to \<^verbatim>\<open>records\<close>, with \<^verbatim>\<open>perc = (inter_area / p_area) * 100.0\<close>.
\<close>

definition overlap_row ::
  "string \<Rightarrow> string \<Rightarrow> string \<Rightarrow> string \<Rightarrow> real \<Rightarrow> real \<Rightarrow> overlap_record" where
  "overlap_row primary_id p_name other_id t_name p_area i_area =
     \<lparr>primary_geography_id = primary_id,
      primary_geography_namecol = p_name,
      other_geography_id = other_id,
      other_geography_namecol = t_name,
      primary_area = p_area,
      intersection_area = i_area,
      percentage_overlap = (i_area / p_area) * 100\<rparr>"

text \<open>
  The loop over the name unions of one target type. Dividing by a primary area of
  \<open>0.0\<close> raises \<^verbatim>\<open>ZeroDivisionError\<close>.
\<close>

fun longform_unions ::
  "('g, 'b) toolkit \<Rightarrow> string \<Rightarrow> string \<Rightarrow> real \<Rightarrow> 'g \<Rightarrow> string \<Rightarrow> real \<Rightarrow> real \<Rightarrow>
   (string \<times> 'g option) list \<Rightarrow> error + overlap_record list" where
  "longform_unions tk primary_id p_name p_area p_geom other_id min_area epsilon [] = Inr []"
| "longform_unions tk primary_id p_name p_area p_geom other_id min_area epsilon
     ((t_name, t_union) # rest) =
     (case t_union of
        None \<Rightarrow> longform_unions tk primary_id p_name p_area p_geom other_id min_area epsilon rest
      | Some u \<Rightarrow>
          if is_empty tk u
          then longform_unions tk primary_id p_name p_area p_geom other_id min_area epsilon rest
          else if inter_area tk p_geom u \<le> max min_area epsilon
          then longform_unions tk primary_id p_name p_area p_geom other_id min_area epsilon rest
          else if p_area = 0 then Inl ZeroDivisionError
          else then_rows
                 (Inr [overlap_row primary_id p_name other_id t_name p_area
                         (inter_area tk p_geom u)])
                 (longform_unions tk primary_id p_name p_area p_geom other_id
                    min_area epsilon rest))"

text \<open>
  The loop over \<^verbatim>\<open>other_ids\<close> for one primary region; \<open>candidate_gdf\<close> holds the rows
  the spatial index returned for the region's bounding box.
\<close>

fun longform_others ::
  "('g, 'b) toolkit \<Rightarrow> 'g feature list \<Rightarrow> string \<Rightarrow> string \<Rightarrow> real \<Rightarrow> 'g \<Rightarrow>
   real \<Rightarrow> real \<Rightarrow> string list \<Rightarrow> error + overlap_record list" where
  "longform_others tk candidate_gdf primary_id p_name p_area p_geom min_area epsilon [] =
     Inr []"
| "longform_others tk candidate_gdf primary_id p_name p_area p_geom min_area epsilon
     (other_id # rest) =
     (if other_id = primary_id
      then longform_others tk candidate_gdf primary_id p_name p_area p_geom
             min_area epsilon rest
      else if rows_with_id candidate_gdf other_id = []
      then longform_others tk candidate_gdf primary_id p_name p_area p_geom
             min_area epsilon rest
      else then_rows
             (longform_unions tk primary_id p_name p_area p_geom other_id min_area epsilon
                (union_by_name tk (rows_with_id candidate_gdf other_id)))
             (longform_others tk candidate_gdf primary_id p_name p_area p_geom
                min_area epsilon rest))"

text \<open>The body of the loop over the dissolved primary regions, for one region.\<close>

definition longform_region ::
  "('g, 'b) toolkit \<Rightarrow> 'g feature list \<Rightarrow> string \<Rightarrow> string list \<Rightarrow> real \<Rightarrow> real \<Rightarrow> real \<Rightarrow>
   'g feature \<Rightarrow> error + overlap_record list" where
  "longform_region tk all_gdf primary_id other_ids buffer_feet min_area epsilon prow =
     (case geometry prow of
        None \<Rightarrow> Inr []
      | Some p_geom_orig \<Rightarrow>
          if is_empty tk p_geom_orig then Inr []
          else if area tk p_geom_orig \<le> epsilon then Inr []
          else longform_others tk
                 (sindex_candidates tk all_gdf (bounds tk p_geom_orig))
                 primary_id (nameCol prow) (area tk p_geom_orig)
                 (geom_for_intersection tk buffer_feet p_geom_orig)
                 min_area epsilon other_ids)"

fun longform_primaries ::
  "('g, 'b) toolkit \<Rightarrow> 'g feature list \<Rightarrow> string \<Rightarrow> string list \<Rightarrow> real \<Rightarrow> real \<Rightarrow> real \<Rightarrow>
   'g feature list \<Rightarrow> error + overlap_record list" where
  "longform_primaries tk all_gdf primary_id other_ids buffer_feet min_area epsilon [] = Inr []"
| "longform_primaries tk all_gdf primary_id other_ids buffer_feet min_area epsilon
     (prow # rest) =
     then_rows
       (longform_region tk all_gdf primary_id other_ids buffer_feet min_area epsilon prow)
       (longform_primaries tk all_gdf primary_id other_ids buffer_feet min_area epsilon rest)"

text \<open>
  \<^verbatim>\<open>sort_values\<close> by primary name and other id ascending, percentage descending.
\<close>

definition sort_key_of :: "overlap_record \<Rightarrow> string \<times> string \<times> real" where
  "sort_key_of r =
     (primary_geography_namecol r, other_geography_id r, - percentage_overlap r)"

definition sort_values :: "overlap_record list \<Rightarrow> overlap_record list" where
  "sort_values records = sort_key sort_key_of records"

text \<open>The returned data frame is the list of its rows; the empty frame is the empty list.\<close>

definition build_longform_for_primary ::
  "('g, 'b) toolkit \<Rightarrow> 'g feature list \<Rightarrow> string \<Rightarrow> string list \<Rightarrow> real \<Rightarrow> real \<Rightarrow> real \<Rightarrow>
   int option \<Rightarrow> error + overlap_record list" where
  "build_longform_for_primary tk all_gdf primary_id other_ids buffer_feet min_area epsilon
     max_primaries =
     (let primary_src = rows_with_id all_gdf primary_id in
      if primary_src = [] then Inr []
      else
        case longform_primaries tk all_gdf primary_id other_ids buffer_feet min_area epsilon
               (cap_primaries max_primaries (dissolve_by_name tk primary_src)) of
          Inl e \<Rightarrow> Inl e
        | Inr records \<Rightarrow> if records = [] then Inr [] else Inr (sort_values records))"

subsection \<open>The wide builder\<close>

text \<open>
  The loop that collects \<^verbatim>\<open>keep_names\<close> for one primary region and one target type. It
  has no test for a missing union: \<^verbatim>\<open>intersection(None)\<close> yields no geometry, and reading
  \<^verbatim>\<open>is_empty\<close> of that raises \<^verbatim>\<open>AttributeError\<close>.
\<close>

fun wide_keep_names ::
  "('g, 'b) toolkit \<Rightarrow> 'g \<Rightarrow> real \<Rightarrow> real \<Rightarrow> (string \<times> 'g option) list \<Rightarrow>
   error + string list" where
  "wide_keep_names tk p_geom min_area epsilon [] = Inr []"
| "wide_keep_names tk p_geom min_area epsilon ((t_name, t_union) # rest) =
     (case t_union of
        None \<Rightarrow> Inl AttributeError
      | Some u \<Rightarrow>
          then_rows
            (Inr (if inter_area tk p_geom u > max min_area epsilon then [t_name] else []))
            (wide_keep_names tk p_geom min_area epsilon rest))"

text \<open>\<^verbatim>\<open>";".join(xs)\<close>\<close>

fun join_semicolon :: "string list \<Rightarrow> string" where
  "join_semicolon [] = []"
| "join_semicolon [x] = x"
| "join_semicolon (x # y # ys) = x @ '';'' @ join_semicolon (y # ys)"

text \<open>\<^verbatim>\<open>";".join(sorted(set(keep_names))) if keep_names else ""\<close>\<close>

definition wide_cell :: "string list \<Rightarrow> string" where
  "wide_cell keep_names =
     (if keep_names \<noteq> [] then join_semicolon (sort (remdups keep_names)) else [])"

text \<open>
  The loop over \<^verbatim>\<open>other_ids\<close> that fills the dictionary \<open>record_d\<close> of one row; assigning to
  a key keeps the key's place in the dictionary.
\<close>

fun wide_others ::
  "('g, 'b) toolkit \<Rightarrow> 'g feature list \<Rightarrow> string \<Rightarrow> 'g \<Rightarrow> real \<Rightarrow> real \<Rightarrow> string list \<Rightarrow>
   (string \<times> string) list \<Rightarrow> error + (string \<times> string) list" where
  "wide_others tk candidate_gdf primary_id p_geom min_area epsilon [] record_d = Inr record_d"
| "wide_others tk candidate_gdf primary_id p_geom min_area epsilon (other_id # rest) record_d =
     (if other_id = primary_id
      then wide_others tk candidate_gdf primary_id p_geom min_area epsilon rest record_d
      else
        case wide_keep_names tk p_geom min_area epsilon
               (union_by_name tk (rows_with_id candidate_gdf other_id)) of
          Inl e \<Rightarrow> Inl e
        | Inr keep_names \<Rightarrow>
            wide_others tk candidate_gdf primary_id p_geom min_area epsilon rest
              (AList.update other_id (wide_cell keep_names) record_d))"

text \<open>The body of the loop over the dissolved primary regions: no row, or one row.\<close>

definition wide_region ::
  "('g, 'b) toolkit \<Rightarrow> 'g feature list \<Rightarrow> string \<Rightarrow> string list \<Rightarrow> real \<Rightarrow> real \<Rightarrow> real \<Rightarrow>
   'g feature \<Rightarrow> error + (string \<times> string) list list" where
  "wide_region tk all_gdf primary_id other_ids buffer_feet min_area epsilon prow =
     (case geometry prow of
        None \<Rightarrow> Inr []
      | Some p_geom_orig \<Rightarrow>
          if is_empty tk p_geom_orig then Inr []
          else
            (case wide_others tk
                    (sindex_candidates tk all_gdf (bounds tk p_geom_orig))
                    primary_id (geom_for_intersection tk buffer_feet p_geom_orig)
                    min_area epsilon other_ids [(primary_id, nameCol prow)] of
               Inl e \<Rightarrow> Inl e
             | Inr record_d \<Rightarrow> Inr [record_d]))"

fun wide_primaries ::
  "('g, 'b) toolkit \<Rightarrow> 'g feature list \<Rightarrow> string \<Rightarrow> string list \<Rightarrow> real \<Rightarrow> real \<Rightarrow> real \<Rightarrow>
   'g feature list \<Rightarrow> error + (string \<times> string) list list" where
  "wide_primaries tk all_gdf primary_id other_ids buffer_feet min_area epsilon [] = Inr []"
| "wide_primaries tk all_gdf primary_id other_ids buffer_feet min_area epsilon (prow # rest) =
     then_rows
       (wide_region tk all_gdf primary_id other_ids buffer_feet min_area epsilon prow)
       (wide_primaries tk all_gdf primary_id other_ids buffer_feet min_area epsilon rest)"

text \<open>\<^verbatim>\<open>[primary_id] + sorted([g for g in other_ids if g != primary_id])\<close>\<close>

definition wide_columns :: "string \<Rightarrow> string list \<Rightarrow> string list" where
  "wide_columns primary_id other_ids =
     primary_id # sort (filter (\<lambda>g. g \<noteq> primary_id) other_ids)"

definition build_wide_for_primary ::
  "('g, 'b) toolkit \<Rightarrow> 'g feature list \<Rightarrow> string \<Rightarrow> string list \<Rightarrow> real \<Rightarrow> real \<Rightarrow> real \<Rightarrow>
   int option \<Rightarrow> error + wide_df" where
  "build_wide_for_primary tk all_gdf primary_id other_ids buffer_feet min_area epsilon
     max_primaries =
     (let primary_src = rows_with_id all_gdf primary_id in
      if primary_src = [] then Inr empty_wide
      else
        case wide_primaries tk all_gdf primary_id other_ids buffer_feet min_area epsilon
               (cap_primaries max_primaries (dissolve_by_name tk primary_src)) of
          Inl e \<Rightarrow> Inl e
        | Inr rows \<Rightarrow>
            if rows = [] then Inr empty_wide
            else Inr \<lparr>columns = wide_columns primary_id other_ids,
                      data = map (\<lambda>r. map (map_of r) (wide_columns primary_id other_ids)) rows\<rparr>)"

subsection \<open>The driver\<close>

text \<open>
  Reading and reprojecting the boundary file, creating the output directories and writing
  the metadata file are input and output: the collection is taken as read, in the planar
  coordinate system, and a run is described by the CSV files it writes.
\<close>

text \<open>The command-line arguments the builders read.\<close>

record args =
  arg_buffer_feet :: real
  arg_min_area_final :: real
  arg_epsilon :: real
  arg_exclude_ids :: "string list"
  arg_primary_only :: "string list option"
  arg_targets :: "string list option"
  arg_max_primaries :: "int option"

text \<open>The CSV files \<^verbatim>\<open>main\<close> writes, each with the primary id of its name.\<close>

datatype artifact =
  Longform_csv string "overlap_record list"
| Wide_csv string wide_df

text \<open>
  The loop of \<^verbatim>\<open>main\<close> over the primary ids. A builder that raises ends the run; the files
  written before stay written.
\<close>

fun process_primaries ::
  "('g, 'b) toolkit \<Rightarrow> 'g feature list \<Rightarrow> args \<Rightarrow> string list \<Rightarrow> string list \<Rightarrow>
   artifact list \<times> error option" where
  "process_primaries tk gdf a target_ids [] = ([], None)"
| "process_primaries tk gdf a target_ids (primary_id # rest) =
     (case build_longform_for_primary tk gdf primary_id target_ids (arg_buffer_feet a)
             (arg_min_area_final a) (arg_epsilon a) (arg_max_primaries a) of
        Inl e \<Rightarrow> ([], Some e)
      | Inr lf \<Rightarrow>
          (case build_wide_for_primary tk gdf primary_id target_ids (arg_buffer_feet a)
                  (arg_min_area_final a) (arg_epsilon a) (arg_max_primaries a) of
             Inl e \<Rightarrow> ((if lf \<noteq> [] then [Longform_csv primary_id lf] else []), Some e)
           | Inr wf_df \<Rightarrow>
               (case process_primaries tk gdf a target_ids rest of
                  (files, err) \<Rightarrow>
                    ((if lf \<noteq> [] then [Longform_csv primary_id lf] else [])
                     @ (if \<not> wide_is_empty wf_df then [Wide_csv primary_id wf_df] else [])
                     @ files, err))))"

text \<open>The ids \<^verbatim>\<open>main\<close> works on: those of the collection, sorted, less the excluded ones.\<close>

definition geography_ids :: "'g feature list \<Rightarrow> args \<Rightarrow> string list" where
  "geography_ids gdf a =
     filter (\<lambda>gid. gid \<notin> set (arg_exclude_ids a)) (sort (remdups (map id_col gdf)))"

text \<open>A list given on the command line counts only when it is present and not empty.\<close>

definition restrict_ids :: "string list option \<Rightarrow> string list \<Rightarrow> string list" where
  "restrict_ids wanted ids =
     (case wanted of
        None \<Rightarrow> ids
      | Some ws \<Rightarrow> if ws = [] then ids else filter (\<lambda>gid. gid \<in> set ids) ws)"

definition main :: "('g, 'b) toolkit \<Rightarrow> 'g feature list \<Rightarrow> args \<Rightarrow> artifact list \<times> error option" where
  "main tk gdf a =
     process_primaries tk gdf a
       (restrict_ids (arg_targets a) (geography_ids gdf a))
       (restrict_ids (arg_primary_only a) (geography_ids gdf a))"

subsection \<open>A toolkit on the unit grid\<close>

text \<open>
  A concrete toolkit, to run the builders on examples: a geometry is a list of unit
  squares of the plane, each named by its lower left corner; its area is the number of
  distinct squares. A positive buffer of \<open>d\<close> adds every square within \<open>d\<close> squares of the
  geometry, a negative one keeps the squares whose whole neighbourhood lies inside. The
  index returns the rows whose bounding box meets the query box; a row without squares
  has no box.
\<close>

type_synonym cells = "(int \<times> int) list"

definition grid_bounds :: "cells \<Rightarrow> (int \<times> int \<times> int \<times> int) option" where
  "grid_bounds g =
     (case g of
        [] \<Rightarrow> None
      | c # cs \<Rightarrow> Some (fold min (map fst cs) (fst c), fold min (map snd cs) (snd c),
                        fold max (map fst cs) (fst c), fold max (map snd cs) (snd c)))"

fun boxes_meet ::
  "(int \<times> int \<times> int \<times> int) option \<Rightarrow> (int \<times> int \<times> int \<times> int) option \<Rightarrow> bool" where
  "boxes_meet (Some (x0, y0, x1, y1)) (Some (u0, v0, u1, v1)) =
     (x0 \<le> u1 \<and> u0 \<le> x1 \<and> y0 \<le> v1 \<and> v0 \<le> y1)"
| "boxes_meet _ _ = False"

definition grid_candidates ::
  "cells feature list \<Rightarrow> (int \<times> int \<times> int \<times> int) option \<Rightarrow> cells feature list" where
  "grid_candidates all_gdf b =
     filter (\<lambda>f. case geometry f of None \<Rightarrow> False | Some g \<Rightarrow> boxes_meet (grid_bounds g) b)
       all_gdf"

definition around :: "nat \<Rightarrow> int \<times> int \<Rightarrow> cells" where
  "around n c =
     concat (map (\<lambda>i. map (\<lambda>j. (fst c + i, snd c + j)) [- int n..int n]) [- int n..int n])"

definition grid_buffer :: "cells \<Rightarrow> real \<Rightarrow> cells" where
  "grid_buffer g d =
     (if d > 0 then remdups (concat (map (around (nat \<lfloor>d\<rfloor>)) g))
      else if d < 0 then filter (\<lambda>c. list_all (\<lambda>c'. c' \<in> set g) (around (nat \<lfloor>- d\<rfloor>) c)) g
      else g)"

definition grid_union_all :: "cells option list \<Rightarrow> cells option" where
  "grid_union_all gs =
     Some (remdups (concat (map (\<lambda>g. case g of None \<Rightarrow> [] | Some cs \<Rightarrow> cs) gs)))"

definition grid_tk :: "(cells, (int \<times> int \<times> int \<times> int) option) toolkit" where
  "grid_tk =
     \<lparr>is_empty = (\<lambda>g. g = []),
      area = (\<lambda>g. real (length (remdups g))),
      buffer = grid_buffer,
      intersection = (\<lambda>a b. filter (\<lambda>c. c \<in> set b) a),
      union_all = grid_union_all,
      bounds = grid_bounds,
      sindex_candidates = grid_candidates\<rparr>"

definition feat :: "string \<Rightarrow> string \<Rightarrow> cells \<Rightarrow> cells feature" where
  "feat gid n g = \<lparr>id_col = gid, nameCol = n, geometry = Some g\<rparr>"

subsection \<open>Notions used to state the properties\<close>

text \<open>
  The order of the longform rows: primary name ascending, then other id ascending, then
  percentage descending.
\<close>

definition ordered_before :: "overlap_record \<Rightarrow> overlap_record \<Rightarrow> bool" where
  "ordered_before r s =
     (primary_geography_namecol r < primary_geography_namecol s
      \<or> (primary_geography_namecol r = primary_geography_namecol s
          \<and> (other_geography_id r < other_geography_id s
              \<or> (other_geography_id r = other_geography_id s
                  \<and> percentage_overlap s \<le> percentage_overlap r))))"

text \<open>
  The list \<^verbatim>\<open>keep_names\<close> that the wide builder collects for a primary region with
  geometry \<open>g\<close> and one other id: the cell of that region's row in the column of the other
  id is \<open>wide_cell\<close> of this list.
\<close>

definition wide_pair_names ::
  "('g, 'b) toolkit \<Rightarrow> 'g feature list \<Rightarrow> real \<Rightarrow> real \<Rightarrow> real \<Rightarrow> 'g \<Rightarrow> string \<Rightarrow>
   error + string list" where
  "wide_pair_names tk all_gdf buffer_feet min_area epsilon g other_id =
     wide_keep_names tk (geom_for_intersection tk buffer_feet g) min_area epsilon
       (union_by_name tk
          (rows_with_id (sindex_candidates tk all_gdf (bounds tk g)) other_id))"

text \<open>The primary id in the name of a written file.\<close>

fun artifact_primary :: "artifact \<Rightarrow> string" where
  "artifact_primary (Longform_csv primary_id lf) = primary_id"
| "artifact_primary (Wide_csv primary_id wide) = primary_id"

text \<open>A dissolved region whose geometry is neither missing nor empty.\<close>

definition has_geometry :: "('g, 'b) toolkit \<Rightarrow> 'g feature \<Rightarrow> bool" where
  "has_geometry tk prow = (case geometry prow of None \<Rightarrow> False | Some g \<Rightarrow> \<not> is_empty tk g)"

text \<open>The first cell of every row of a wide table: the column of the primary names.\<close>

definition primary_column :: "wide_df \<Rightarrow> string option list" where
  "primary_column wide = map (\<lambda>row. case row of [] \<Rightarrow> None | c # cs \<Rightarrow> c) (data wide)"

subsection \<open>Example collections\<close>

text \<open>
  Two primary regions of type \<open>p\<close>, given out of name order, and targets of the types \<open>t\<close>
  and \<open>s\<close>: \<open>X\<close> covers both regions, \<open>W\<close> half of \<open>B\<close>, \<open>S\<close> covers \<open>A\<close>.
\<close>

definition ex_order :: "cells feature list" where
  "ex_order =
     [feat ''p'' ''B'' [(0, 0), (0, 1)],
      feat ''p'' ''A'' [(3, 0)],
      feat ''t'' ''X'' [(0, 0), (0, 1), (3, 0)],
      feat ''t'' ''W'' [(0, 1)],
      feat ''s'' ''S'' [(3, 0), (3, 1)]]"

definition ex_order_rows :: "overlap_record list" where
  "ex_order_rows =
     [\<lparr>primary_geography_id = ''p'', primary_geography_namecol = ''A'',
        other_geography_id = ''s'', other_geography_namecol = ''S'',
        primary_area = 1, intersection_area = 1, percentage_overlap = 100\<rparr>,
      \<lparr>primary_geography_id = ''p'', primary_geography_namecol = ''A'',
        other_geography_id = ''t'', other_geography_namecol = ''X'',
        primary_area = 1, intersection_area = 1, percentage_overlap = 100\<rparr>,
      \<lparr>primary_geography_id = ''p'', primary_geography_namecol = ''B'',
        other_geography_id = ''t'', other_geography_namecol = ''X'',
        primary_area = 2, intersection_area = 2, percentage_overlap = 100\<rparr>,
      \<lparr>primary_geography_id = ''p'', primary_geography_namecol = ''B'',
        other_geography_id = ''t'', other_geography_namecol = ''W'',
        primary_area = 2, intersection_area = 1, percentage_overlap = 50\<rparr>]"

text \<open>
  A primary region of three by three squares and two targets: \<open>X\<close> runs through its middle
  square, \<open>Y\<close> meets only a corner. With a buffer of \<open>-1\<close> the region shrinks to its middle
  square.
\<close>

definition ex_buffer :: "cells feature list" where
  "ex_buffer =
     [feat ''p'' ''P'' [(0, 0), (0, 1), (0, 2), (1, 0), (1, 1), (1, 2), (2, 0), (2, 1), (2, 2)],
      feat ''t'' ''X'' [(1, 1), (1, 2), (1, 3)],
      feat ''t'' ''Y'' [(0, 0), (5, 5)]]"

definition ex_buffer_row :: overlap_record where
  "ex_buffer_row =
     \<lparr>primary_geography_id = ''p'', primary_geography_namecol = ''P'',
      other_geography_id = ''t'', other_geography_namecol = ''X'',
      primary_area = 9, intersection_area = 1, percentage_overlap = 100 / 9\<rparr>"

text \<open>
  A primary region of one square and a target whose bounding box meets it while the target
  itself does not.
\<close>

definition ex_zero :: "cells feature list" where
  "ex_zero =
     [feat ''p'' ''P'' [(0, 0)],
      feat ''t'' ''L'' [(0, 1), (1, 0)]]"


text \<open>Arguments of a run that asks for the primary ids \<open>q\<close>, which has no features, and \<open>p\<close>.\<close>

definition ex_args :: args where
  "ex_args =
     \<lparr>arg_buffer_feet = 0, arg_min_area_final = 0, arg_epsilon = 0,
      arg_exclude_ids = [], arg_primary_only = Some [''q'', ''p''],
      arg_targets = None, arg_max_primaries = None\<rparr>"

text \<open>The wide table of \<open>ex_order\<close> when no overlap passes the threshold.\<close>

definition ex_order_wide_bare :: wide_df where
  "ex_order_wide_bare =
     \<lparr>columns = [''p'', ''s'', ''t''],
      data = [[Some ''A'', Some [], Some []], [Some ''B'', Some [], Some []]]\<rparr>"


text \<open>
  A primary region of one square, of area 1, inside a target of three by three squares.
\<close>

definition ex_degenerate :: "cells feature list" where
  "ex_degenerate =
     [feat ''p'' ''P'' [(0, 0)],
      feat ''t'' ''X'' [(- 1, - 1), (- 1, 0), (- 1, 1), (0, - 1), (0, 0), (0, 1),
                        (1, - 1), (1, 0), (1, 1)]]"

section \<open>Properties\<close>

subsection \<open>Basic facts\<close>

lemma then_rows_Inr_iff:
  "then_rows a b = Inr zs \<longleftrightarrow> (\<exists>xs ys. a = Inr xs \<and> b = Inr ys \<and> zs = xs @ ys)"
  by (cases a; cases b) auto

lemma then_rows_Nil [simp]: "then_rows (Inr []) b = b"
  by (cases b) auto

lemma ex_order_longform:
  "build_longform_for_primary grid_tk ex_order ''p'' [''t'', ''s'', ''p''] 0 0 0 None
     = Inr ex_order_rows"
  by code_simp

subsection \<open>The order of the longform rows\<close>

lemma key_le_ordered: "sort_key_of r \<le> sort_key_of s \<Longrightarrow> ordered_before r s"
  by (auto simp: sort_key_of_def ordered_before_def less_eq_prod_def)

lemma sort_values_ordered: "sorted_wrt ordered_before (sort_values records)"
proof -
  have "sorted (map sort_key_of (sort_values records))"
    by (simp add: sort_values_def)
  then have "sorted_wrt (\<lambda>r s. sort_key_of r \<le> sort_key_of s) (sort_values records)"
    by (simp add: sorted_map)
  then show ?thesis
    by (rule sorted_wrt_mono_rel [rotated]) (simp add: key_le_ordered)
qed

text \<open>
  Claim C4. The rows a longform build returns are in order: every row stands before every
  later row by primary name ascending, then other geography id ascending, then percentage
  overlap descending.
\<close>

theorem longform_rows_ordered:
  "build_longform_for_primary tk all_gdf primary_id other_ids buffer_feet min_area epsilon
     max_primaries = Inr rows \<Longrightarrow> sorted_wrt ordered_before rows"
  by (auto simp: build_longform_for_primary_def Let_def sort_values_ordered
      split: if_splits sum.splits)

theorem longform_rows_ordered_witness:
  "build_longform_for_primary grid_tk ex_order ''p'' [''t'', ''s'', ''p''] 0 0 0 None
     = Inr ex_order_rows
   \<and> ex_order_rows \<noteq> [] \<and> sorted_wrt ordered_before ex_order_rows"
  using ex_order_longform longform_rows_ordered [OF ex_order_longform]
  by (simp add: ex_order_rows_def)

subsection \<open>The cap on the number of primary regions\<close>

text \<open>
  Claim C10. The cap \<^verbatim>\<open>max_primaries\<close> takes effect only when it is strictly positive: with
  a cap of zero or below, both builders return what they return without a cap; a positive
  cap \<open>n\<close> keeps the first \<open>n\<close> dissolved regions.
\<close>

theorem cap_only_when_positive:
  "(n \<le> 0 \<longrightarrow>
      build_longform_for_primary tk all_gdf primary_id other_ids buffer_feet min_area
          epsilon (Some n)
        = build_longform_for_primary tk all_gdf primary_id other_ids buffer_feet min_area
            epsilon None
      \<and> build_wide_for_primary tk all_gdf primary_id other_ids buffer_feet min_area
            epsilon (Some n)
        = build_wide_for_primary tk all_gdf primary_id other_ids buffer_feet min_area
            epsilon None)
   \<and> (0 < n \<longrightarrow> cap_primaries (Some n) regions = take (nat n) regions)
   \<and> cap_primaries None regions = regions"
proof (intro conjI impI)
  assume "n \<le> 0"
  then have same: "cap_primaries (Some n) xs = cap_primaries None xs"
    for xs :: "'g feature list"
    by (simp add: cap_primaries_def)
  show "build_longform_for_primary tk all_gdf primary_id other_ids buffer_feet min_area
          epsilon (Some n)
        = build_longform_for_primary tk all_gdf primary_id other_ids buffer_feet min_area
            epsilon None"
    unfolding build_longform_for_primary_def same by (rule refl)
  show "build_wide_for_primary tk all_gdf primary_id other_ids buffer_feet min_area
          epsilon (Some n)
        = build_wide_for_primary tk all_gdf primary_id other_ids buffer_feet min_area
            epsilon None"
    unfolding build_wide_for_primary_def same by (rule refl)
next
  assume "0 < n"
  then show "cap_primaries (Some n) regions = take (nat n) regions"
    by (simp add: cap_primaries_def)
next
  show "cap_primaries None regions = regions"
    by (simp add: cap_primaries_def)
qed

theorem cap_only_when_positive_witness:
  "build_longform_for_primary grid_tk ex_order ''p'' [''t'', ''s'', ''p''] 0 0 0 (Some (- 2))
     = Inr ex_order_rows
   \<and> build_wide_for_primary grid_tk ex_order ''p'' [''t'', ''s'', ''p''] 0 0 0 (Some 0)
     = build_wide_for_primary grid_tk ex_order ''p'' [''t'', ''s'', ''p''] 0 0 0 None
   \<and> cap_primaries (Some 1) [''A'', ''B''] = [''A'']"
  using
    cap_only_when_positive [of "- 2" grid_tk ex_order "''p''" "[''t'', ''s'', ''p'']" 0 0 0
      "[''A'', ''B'']"]
    cap_only_when_positive [of 0 grid_tk ex_order "''p''" "[''t'', ''s'', ''p'']" 0 0 0
      "[''A'', ''B'']"]
    cap_only_when_positive [of 1 grid_tk ex_order "''p''" "[''t'', ''s'', ''p'']" 0 0 0
      "[''A'', ''B'']"]
    ex_order_longform
  by simp

subsection \<open>Where a longform row comes from\<close>

lemma longform_unions_row:
  "longform_unions tk primary_id p_name p_area p_geom other_id min_area epsilon us = Inr rs \<Longrightarrow>
   r \<in> set rs \<Longrightarrow>
   \<exists>t_name u. (t_name, Some u) \<in> set us \<and> \<not> is_empty tk u
     \<and> max min_area epsilon < inter_area tk p_geom u \<and> p_area \<noteq> 0
     \<and> r = overlap_row primary_id p_name other_id t_name p_area (inter_area tk p_geom u)"
proof (induction us arbitrary: rs)
  case Nil
  then show ?case by simp
next
  case (Cons x us)
  obtain t_name t_union where x: "x = (t_name, t_union)" by (cases x)
  show ?case
  proof (cases "\<exists>u. t_union = Some u \<and> \<not> is_empty tk u
                  \<and> max min_area epsilon < inter_area tk p_geom u")
    case False
    with Cons.prems(1) x have
      "longform_unions tk primary_id p_name p_area p_geom other_id min_area epsilon us = Inr rs"
      by (cases t_union) (auto split: if_splits)
    from Cons.IH [OF this Cons.prems(2)] show ?thesis by auto
  next
    case True
    then obtain u where u: "t_union = Some u" "\<not> is_empty tk u"
      "max min_area epsilon < inter_area tk p_geom u"
      by blast
    with Cons.prems(1) x have nz: "p_area \<noteq> 0"
      by (auto split: if_splits)
    with Cons.prems(1) x u obtain rest where
      rest: "longform_unions tk primary_id p_name p_area p_geom other_id min_area epsilon us
               = Inr rest"
      and rs: "rs = overlap_row primary_id p_name other_id t_name p_area
                      (inter_area tk p_geom u) # rest"
      by (auto simp: then_rows_Inr_iff)
    from Cons.prems(2) rs consider
      "r = overlap_row primary_id p_name other_id t_name p_area (inter_area tk p_geom u)"
      | "r \<in> set rest"
      by auto
    then show ?thesis
    proof cases
      case 1
      with x u nz show ?thesis by auto
    next
      case 2
      from Cons.IH [OF rest 2] show ?thesis by auto
    qed
  qed
qed

lemma longform_others_row:
  "longform_others tk candidate_gdf primary_id p_name p_area p_geom min_area epsilon other_ids
     = Inr rs \<Longrightarrow>
   r \<in> set rs \<Longrightarrow>
   \<exists>other_id rs'. other_id \<in> set other_ids \<and> other_id \<noteq> primary_id
     \<and> longform_unions tk primary_id p_name p_area p_geom other_id min_area epsilon
          (union_by_name tk (rows_with_id candidate_gdf other_id)) = Inr rs'
     \<and> r \<in> set rs'"
proof (induction other_ids arbitrary: rs)
  case Nil
  then show ?case by simp
next
  case (Cons other_id other_ids)
  show ?case
  proof (cases "other_id = primary_id \<or> rows_with_id candidate_gdf other_id = []")
    case True
    with Cons.prems have "longform_others tk candidate_gdf primary_id p_name p_area p_geom
        min_area epsilon other_ids = Inr rs"
      by (auto split: if_splits)
    from Cons.IH [OF this Cons.prems(2)] show ?thesis by auto
  next
    case False
    with Cons.prems obtain xs ys where
      xs: "longform_unions tk primary_id p_name p_area p_geom other_id min_area epsilon
             (union_by_name tk (rows_with_id candidate_gdf other_id)) = Inr xs"
      and ys: "longform_others tk candidate_gdf primary_id p_name p_area p_geom
             min_area epsilon other_ids = Inr ys"
      and rs: "rs = xs @ ys"
      by (auto simp: then_rows_Inr_iff)
    from Cons.prems(2) rs consider "r \<in> set xs" | "r \<in> set ys" by auto
    then show ?thesis
    proof cases
      case 1
      with xs False show ?thesis by auto
    next
      case 2
      from Cons.IH [OF ys 2] show ?thesis by auto
    qed
  qed
qed

lemma longform_primaries_row:
  "longform_primaries tk all_gdf primary_id other_ids buffer_feet min_area epsilon regions
     = Inr rs \<Longrightarrow>
   r \<in> set rs \<Longrightarrow>
   \<exists>prow rs'. prow \<in> set regions
     \<and> longform_region tk all_gdf primary_id other_ids buffer_feet min_area epsilon prow = Inr rs'
     \<and> r \<in> set rs'"
proof (induction regions arbitrary: rs)
  case Nil
  then show ?case by simp
next
  case (Cons prow regions)
  then obtain xs ys where
    xs: "longform_region tk all_gdf primary_id other_ids buffer_feet min_area epsilon prow
           = Inr xs"
    and ys: "longform_primaries tk all_gdf primary_id other_ids buffer_feet min_area epsilon
           regions = Inr ys"
    and rs: "rs = xs @ ys"
    by (auto simp: then_rows_Inr_iff)
  from Cons.prems(2) rs consider "r \<in> set xs" | "r \<in> set ys" by auto
  then show ?case
  proof cases
    case 1
    with xs show ?thesis by auto
  next
    case 2
    from Cons.IH [OF ys 2] show ?thesis by auto
  qed
qed

lemma set_cap_primaries: "set (cap_primaries c xs) \<subseteq> set xs"
  by (auto simp: cap_primaries_def split: option.splits dest: in_set_takeD)

lemma set_sort_values [simp]: "set (sort_values rs) = set rs"
  by (simp add: sort_values_def)

lemma build_longform_records:
  "build_longform_for_primary tk all_gdf primary_id other_ids buffer_feet min_area epsilon
     max_primaries = Inr rows \<Longrightarrow>
   rows = [] \<or>
   (\<exists>records. longform_primaries tk all_gdf primary_id other_ids buffer_feet min_area epsilon
        (cap_primaries max_primaries (dissolve_by_name tk (rows_with_id all_gdf primary_id)))
          = Inr records \<and> set rows = set records)"
  by (auto simp: build_longform_for_primary_def Let_def split: if_splits sum.splits)

text \<open>
  Every row of a longform result was appended for one dissolved region that passed the
  guards, one other id and one name union that passed the threshold.
\<close>

lemma longform_row_origin:
  assumes "build_longform_for_primary tk all_gdf primary_id other_ids buffer_feet min_area
             epsilon max_primaries = Inr rows"
    and "r \<in> set rows"
  shows "\<exists>prow g other_id t_name u.
           prow \<in> set (cap_primaries max_primaries
                         (dissolve_by_name tk (rows_with_id all_gdf primary_id)))
         \<and> geometry prow = Some g \<and> \<not> is_empty tk g \<and> epsilon < area tk g
         \<and> area tk g \<noteq> 0
         \<and> other_id \<in> set other_ids \<and> other_id \<noteq> primary_id
         \<and> (t_name, Some u) \<in> set (union_by_name tk
               (rows_with_id (sindex_candidates tk all_gdf (bounds tk g)) other_id))
         \<and> \<not> is_empty tk u
         \<and> max min_area epsilon
             < inter_area tk (geom_for_intersection tk buffer_feet g) u
         \<and> r = overlap_row primary_id (nameCol prow) other_id t_name (area tk g)
                  (inter_area tk (geom_for_intersection tk buffer_feet g) u)"
proof -
  from build_longform_records [OF assms(1)] assms(2) obtain records where
    recs: "longform_primaries tk all_gdf primary_id other_ids buffer_feet min_area epsilon
        (cap_primaries max_primaries (dissolve_by_name tk (rows_with_id all_gdf primary_id)))
          = Inr records"
    and "r \<in> set records"
    by auto
  from longform_primaries_row [OF this] obtain prow rs1 where
    prow: "prow \<in> set (cap_primaries max_primaries
                         (dissolve_by_name tk (rows_with_id all_gdf primary_id)))"
    and reg: "longform_region tk all_gdf primary_id other_ids buffer_feet min_area epsilon prow
                = Inr rs1"
    and r1: "r \<in> set rs1"
    by auto
  from reg r1 obtain g where
    g: "geometry prow = Some g" "\<not> is_empty tk g" "epsilon < area tk g"
    and oth: "longform_others tk (sindex_candidates tk all_gdf (bounds tk g)) primary_id
                (nameCol prow) (area tk g) (geom_for_intersection tk buffer_feet g)
                min_area epsilon other_ids = Inr rs1"
    by (auto simp: longform_region_def split: option.splits if_splits)
  from longform_others_row [OF oth r1] obtain other_id rs2 where
    oid: "other_id \<in> set other_ids" "other_id \<noteq> primary_id"
    and un: "longform_unions tk primary_id (nameCol prow) (area tk g)
               (geom_for_intersection tk buffer_feet g) other_id min_area epsilon
               (union_by_name tk
                  (rows_with_id (sindex_candidates tk all_gdf (bounds tk g)) other_id))
             = Inr rs2"
    and r2: "r \<in> set rs2"
    by auto
  from longform_unions_row [OF un r2] prow g oid show ?thesis
    by blast
qed

subsection \<open>Areas and percentages of the longform rows\<close>

lemma ex_buffer_longform:
  "build_longform_for_primary grid_tk ex_buffer ''p'' [''t''] (- 1) 0 0 None
     = Inr [ex_buffer_row]"
  by code_simp

text \<open>
  Claim C3. Every row of a longform result belongs to a dissolved primary region and a
  name union of the row's other id among the region's candidates. The recorded primary
  area is the area of the region's own geometry, not of the buffered one; the recorded
  intersection area is measured on the geometry used for the intersection (buffered when
  the buffer distance is not zero); and the percentage is the intersection area divided
  by the area of the region's own geometry, times 100.
\<close>

theorem percentage_uses_unbuffered_area:
  assumes "build_longform_for_primary tk all_gdf primary_id other_ids buffer_feet min_area
             epsilon max_primaries = Inr rows"
    and "r \<in> set rows"
  shows "\<exists>prow \<in> set (dissolve_by_name tk (rows_with_id all_gdf primary_id)). \<exists>g u.
           nameCol prow = primary_geography_namecol r
         \<and> geometry prow = Some g
         \<and> (other_geography_namecol r, Some u)
             \<in> set (union_by_name tk
                      (rows_with_id (sindex_candidates tk all_gdf (bounds tk g))
                         (other_geography_id r)))
         \<and> intersection_area r = inter_area tk (geom_for_intersection tk buffer_feet g) u
         \<and> primary_area r = area tk g
         \<and> area tk g \<noteq> 0
         \<and> percentage_overlap r = intersection_area r / area tk g * 100"
proof -
  from longform_row_origin [OF assms] obtain prow g other_id t_name u where
    prow: "prow \<in> set (cap_primaries max_primaries
                         (dissolve_by_name tk (rows_with_id all_gdf primary_id)))"
    and g: "geometry prow = Some g" "\<not> is_empty tk g" "epsilon < area tk g"
      "area tk g \<noteq> 0"
    and oid: "other_id \<in> set other_ids" "other_id \<noteq> primary_id"
    and u: "(t_name, Some u) \<in> set (union_by_name tk
               (rows_with_id (sindex_candidates tk all_gdf (bounds tk g)) other_id))"
      "\<not> is_empty tk u"
      "max min_area epsilon < inter_area tk (geom_for_intersection tk buffer_feet g) u"
    and r: "r = overlap_row primary_id (nameCol prow) other_id t_name (area tk g)
                  (inter_area tk (geom_for_intersection tk buffer_feet g) u)"
    by (elim exE conjE) (rule that)
  have "set (cap_primaries max_primaries
               (dissolve_by_name tk (rows_with_id all_gdf primary_id)))
        \<subseteq> set (dissolve_by_name tk (rows_with_id all_gdf primary_id))"
    by (rule set_cap_primaries)
  with prow have mem: "prow \<in> set (dissolve_by_name tk (rows_with_id all_gdf primary_id))"
    by (rule subsetD [rotated])
  have fields: "primary_geography_namecol r = nameCol prow" "other_geography_id r = other_id"
    "other_geography_namecol r = t_name" "primary_area r = area tk g"
    "intersection_area r = inter_area tk (geom_for_intersection tk buffer_feet g) u"
    "percentage_overlap r
       = inter_area tk (geom_for_intersection tk buffer_feet g) u / area tk g * 100"
    unfolding r overlap_row_def by simp_all
  show ?thesis
    by (rule bexI [OF _ mem], rule exI [of _ g], rule exI [of _ u])
       (simp add: fields g u)
qed


theorem percentage_uses_unbuffered_area_witness:
  "build_longform_for_primary grid_tk ex_buffer ''p'' [''t''] (- 1) 0 0 None
     = Inr [ex_buffer_row]
   \<and> (\<exists>prow \<in> set (dissolve_by_name grid_tk (rows_with_id ex_buffer ''p'')). \<exists>g u.
           nameCol prow = primary_geography_namecol ex_buffer_row
         \<and> geometry prow = Some g
         \<and> (other_geography_namecol ex_buffer_row, Some u)
             \<in> set (union_by_name grid_tk
                      (rows_with_id (sindex_candidates grid_tk ex_buffer (bounds grid_tk g))
                         (other_geography_id ex_buffer_row)))
         \<and> intersection_area ex_buffer_row
             = inter_area grid_tk (geom_for_intersection grid_tk (- 1) g) u
         \<and> primary_area ex_buffer_row = area grid_tk g
         \<and> area grid_tk g \<noteq> 0
         \<and> percentage_overlap ex_buffer_row
             = intersection_area ex_buffer_row / area grid_tk g * 100)"
proof -
  have mem: "ex_buffer_row \<in> set [ex_buffer_row]" by simp
  from ex_buffer_longform percentage_uses_unbuffered_area [OF ex_buffer_longform mem]
  show ?thesis by (rule conjI)
qed


text \<open>Two facts of the grid toolkit that hold of any sensible geometry library.\<close>

lemma grid_area_nonneg: "0 \<le> area grid_tk g"
  by (simp add: grid_tk_def)

lemma grid_intersection_within: "area grid_tk (intersection grid_tk a b) \<le> area grid_tk a"
  by (simp add: grid_tk_def remdups_filter)

text \<open>
  Claim C6, as stated, fails: with a negative minimum area and a negative epsilon, a
  target that does not meet the primary region passes the threshold with an intersection
  area of zero, and its row has a percentage of zero.
\<close>

theorem percentage_zero_counterexample:
  "build_longform_for_primary grid_tk ex_zero ''p'' [''t''] 0 (- 1) (- 1) None
     = Inr [\<lparr>primary_geography_id = ''p'', primary_geography_namecol = ''P'',
              other_geography_id = ''t'', other_geography_namecol = ''L'',
              primary_area = 1, intersection_area = 0, percentage_overlap = 0\<rparr>]"
  by code_simp


text \<open>
  Claim C6, amended. With areas that are never negative: when the greater of the minimum
  area and epsilon is not negative, every longform row has a percentage above zero; and
  when the buffer distance is zero and an intersection is never larger than the geometry
  it is cut from, no percentage exceeds 100.
\<close>

theorem percentage_bounds:
  assumes "build_longform_for_primary tk all_gdf primary_id other_ids buffer_feet min_area
             epsilon max_primaries = Inr rows"
    and "r \<in> set rows"
    and nonneg: "\<And>g. 0 \<le> area tk g"
  shows "(0 \<le> max min_area epsilon \<longrightarrow> 0 < percentage_overlap r)
       \<and> (buffer_feet = 0 \<and> (\<forall>a b. area tk (intersection tk a b) \<le> area tk a)
            \<longrightarrow> percentage_overlap r \<le> 100)"
proof -
  from longform_row_origin [OF assms(1,2)] obtain prow g other_id t_name u where
    prow: "prow \<in> set (cap_primaries max_primaries
                         (dissolve_by_name tk (rows_with_id all_gdf primary_id)))"
    and g: "geometry prow = Some g" "\<not> is_empty tk g" "epsilon < area tk g"
      "area tk g \<noteq> 0"
    and oid: "other_id \<in> set other_ids" "other_id \<noteq> primary_id"
    and u: "(t_name, Some u) \<in> set (union_by_name tk
               (rows_with_id (sindex_candidates tk all_gdf (bounds tk g)) other_id))"
      "\<not> is_empty tk u"
    and thr: "max min_area epsilon < inter_area tk (geom_for_intersection tk buffer_feet g) u"
    and r: "r = overlap_row primary_id (nameCol prow) other_id t_name (area tk g)
                  (inter_area tk (geom_for_intersection tk buffer_feet g) u)"
    by (elim exE conjE) (rule that)
  from g(4) nonneg [of g] have pos: "0 < area tk g" by simp
  have perc: "percentage_overlap r
      = inter_area tk (geom_for_intersection tk buffer_feet g) u / area tk g * 100"
    unfolding r overlap_row_def by simp
  have lower: "0 < percentage_overlap r" if "0 \<le> max min_area epsilon"
  proof -
    from that thr have "0 < inter_area tk (geom_for_intersection tk buffer_feet g) u"
      by linarith
    with pos show ?thesis unfolding perc by simp
  qed
  have upper: "percentage_overlap r \<le> 100"
    if b0: "buffer_feet = 0"
      and within: "\<forall>a b. area tk (intersection tk a b) \<le> area tk a"
  proof -
    have "area tk (intersection tk g u) \<le> area tk g"
      using within by simp
    with nonneg [of g] have "inter_area tk g u \<le> area tk g"
      by (simp add: inter_area_def Let_def)
    moreover have "geom_for_intersection tk buffer_feet g = g"
      by (simp add: b0 geom_for_intersection_def)
    ultimately show ?thesis
      using pos unfolding perc by (simp add: pos_divide_le_eq)
  qed
  from lower upper show ?thesis by blast
qed

theorem percentage_bounds_witness:
  "build_longform_for_primary grid_tk ex_order ''p'' [''t'', ''s'', ''p''] 0 0 0 None
     = Inr ex_order_rows
   \<and> 0 < percentage_overlap (ex_order_rows ! 3)
   \<and> percentage_overlap (ex_order_rows ! 3) \<le> 100"
proof -
  have mem: "ex_order_rows ! 3 \<in> set ex_order_rows"
    by (simp add: ex_order_rows_def)
  from percentage_bounds [OF ex_order_longform mem grid_area_nonneg]
    grid_intersection_within ex_order_longform
  show ?thesis by simp
qed

subsection \<open>Raising the minimum area\<close>








subsection \<open>The cells of a wide row\<close>

lemma wide_others_frame:
  "wide_others tk candidate_gdf primary_id p_geom min_area epsilon other_ids record_d
     = Inr record_d' \<Longrightarrow>
   k \<notin> set other_ids \<or> k = primary_id \<Longrightarrow> map_of record_d' k = map_of record_d k"
proof (induction other_ids arbitrary: record_d)
  case Nil
  then show ?case by simp
next
  case (Cons other_id other_ids)
  show ?case
  proof (cases "other_id = primary_id")
    case True
    with Cons show ?thesis by auto
  next
    case False
    with Cons.prems(1) obtain keep_names where
      "wide_others tk candidate_gdf primary_id p_geom min_area epsilon other_ids
         (AList.update other_id (wide_cell keep_names) record_d) = Inr record_d'"
      by (auto split: sum.splits)
    from Cons.IH [OF this] Cons.prems(2) False
    have "map_of record_d' k
      = map_of (AList.update other_id (wide_cell keep_names) record_d) k"
      by auto
    also from Cons.prems(2) False have "\<dots> = map_of record_d k"
      by (auto simp: update_conv')
    finally show ?thesis .
  qed
qed

lemma wide_others_cell:
  "wide_others tk candidate_gdf primary_id p_geom min_area epsilon other_ids record_d
     = Inr record_d' \<Longrightarrow>
   k \<in> set other_ids \<Longrightarrow> k \<noteq> primary_id \<Longrightarrow>
   \<exists>keep_names.
     wide_keep_names tk p_geom min_area epsilon
       (union_by_name tk (rows_with_id candidate_gdf k)) = Inr keep_names
     \<and> map_of record_d' k = Some (wide_cell keep_names)"
proof (induction other_ids arbitrary: record_d)
  case Nil
  then show ?case by simp
next
  case (Cons other_id other_ids)
  show ?case
  proof (cases "other_id = primary_id")
    case True
    with Cons show ?thesis by auto
  next
    case False
    with Cons.prems(1) obtain keep_names where
      kn: "wide_keep_names tk p_geom min_area epsilon
             (union_by_name tk (rows_with_id candidate_gdf other_id)) = Inr keep_names"
      and rest: "wide_others tk candidate_gdf primary_id p_geom min_area epsilon other_ids
         (AList.update other_id (wide_cell keep_names) record_d) = Inr record_d'"
      by (auto split: sum.splits)
    show ?thesis
    proof (cases "k \<in> set other_ids")
      case True
      from Cons.IH [OF rest True Cons.prems(3)] show ?thesis .
    next
      case notin: False
      with Cons.prems(2) have k: "k = other_id" by simp
      from wide_others_frame [OF rest, of k] notin
      have "map_of record_d' k
        = map_of (AList.update other_id (wide_cell keep_names) record_d) k"
        by simp
      with k have "map_of record_d' k = Some (wide_cell keep_names)"
        by (simp add: update_conv')
      with kn k show ?thesis by simp
    qed
  qed
qed


subsection \<open>Whether the wide builder returns does not depend on the minimum area\<close>






subsection \<open>Threshold monotonicity\<close>





subsection \<open>A primary id without features\<close>

lemma build_longform_no_features:
  "rows_with_id all_gdf primary_id = [] \<Longrightarrow>
   build_longform_for_primary tk all_gdf primary_id other_ids buffer_feet min_area epsilon
     max_primaries = Inr []"
  by (simp add: build_longform_for_primary_def)

lemma build_wide_no_features:
  "rows_with_id all_gdf primary_id = [] \<Longrightarrow>
   build_wide_for_primary tk all_gdf primary_id other_ids buffer_feet min_area epsilon
     max_primaries = Inr empty_wide"
  by (simp add: build_wide_for_primary_def)

lemma wide_is_empty_empty_wide [simp]: "wide_is_empty empty_wide"
  by (simp add: wide_is_empty_def empty_wide_def)

lemma process_primaries_no_features:
  "rows_with_id gdf primary_id = [] \<Longrightarrow>
   process_primaries tk gdf a target_ids (primary_id # rest)
     = process_primaries tk gdf a target_ids rest"
  by (simp add: build_longform_no_features build_wide_no_features split: prod.splits)

lemma process_primaries_skip:
  "rows_with_id gdf primary_id = [] \<Longrightarrow>
   process_primaries tk gdf a target_ids (before @ primary_id # rest)
     = process_primaries tk gdf a target_ids (before @ rest)"
proof (induction before)
  case Nil
  then show ?case by (simp only: append_Nil process_primaries_no_features)
next
  case (Cons p before)
  then have "process_primaries tk gdf a target_ids (before @ primary_id # rest)
     = process_primaries tk gdf a target_ids (before @ rest)"
    by simp
  then show ?case
    by (simp split: sum.splits prod.splits)
qed

lemma longform_rows_need_features:
  "build_longform_for_primary tk all_gdf primary_id other_ids buffer_feet min_area epsilon
     max_primaries = Inr lf \<Longrightarrow> lf \<noteq> [] \<Longrightarrow> rows_with_id all_gdf primary_id \<noteq> []"
  by (auto simp: build_longform_no_features)

lemma wide_rows_need_features:
  "build_wide_for_primary tk all_gdf primary_id other_ids buffer_feet min_area epsilon
     max_primaries = Inr wide \<Longrightarrow> \<not> wide_is_empty wide \<Longrightarrow>
   rows_with_id all_gdf primary_id \<noteq> []"
  by (auto simp: build_wide_no_features)

lemma process_primaries_artifacts:
  "f \<in> set (fst (process_primaries tk gdf a target_ids primary_ids)) \<Longrightarrow>
   rows_with_id gdf (artifact_primary f) \<noteq> []"
proof (induction primary_ids)
  case Nil
  then show ?case by simp
next
  case (Cons p primary_ids)
  show ?case
  proof (cases "rows_with_id gdf p = []")
    case True
    with Cons show ?thesis
      by (simp add: process_primaries_no_features del: process_primaries.simps(2))
  next
    case False
    from Cons.prems have "artifact_primary f = p
        \<or> f \<in> set (fst (process_primaries tk gdf a target_ids primary_ids))"
      by (auto split: sum.splits prod.splits if_splits)
    with False Cons.IH show ?thesis by auto
  qed
qed

lemma ex_order_no_q: "rows_with_id ex_order ''q'' = []"
  by code_simp

text \<open>
  Claim C7. For a primary id without any feature in the collection, both builders return
  their empty table and raise nothing; the loop of the driver writes no file for the id,
  alone or among other ids, whose processing is the same with and without it; no file of
  a whole run bears the id; and dissolving or uniting an empty set of features gives the
  empty result.
\<close>

theorem no_features_no_output:
  assumes "rows_with_id gdf primary_id = []"
  shows "build_longform_for_primary tk gdf primary_id other_ids buffer_feet min_area epsilon
           max_primaries = Inr []
       \<and> build_wide_for_primary tk gdf primary_id other_ids buffer_feet min_area epsilon
           max_primaries = Inr empty_wide
       \<and> wide_is_empty empty_wide
       \<and> process_primaries tk gdf a target_ids [primary_id] = ([], None)
       \<and> process_primaries tk gdf a target_ids (before @ primary_id # rest)
           = process_primaries tk gdf a target_ids (before @ rest)
       \<and> primary_id \<notin> set (map artifact_primary (fst (main tk gdf a)))
       \<and> dissolve_by_name tk [] = []
       \<and> union_by_name tk [] = []"
proof (intro conjI)
  from assms show "build_longform_for_primary tk gdf primary_id other_ids buffer_feet min_area
      epsilon max_primaries = Inr []"
    by (rule build_longform_no_features)
  from assms show "build_wide_for_primary tk gdf primary_id other_ids buffer_feet min_area
      epsilon max_primaries = Inr empty_wide"
    by (rule build_wide_no_features)
  show "wide_is_empty empty_wide" by simp
  from assms show "process_primaries tk gdf a target_ids [primary_id] = ([], None)"
    by (simp add: process_primaries_no_features del: process_primaries.simps(2))
  from assms show "process_primaries tk gdf a target_ids (before @ primary_id # rest)
      = process_primaries tk gdf a target_ids (before @ rest)"
    by (rule process_primaries_skip)
  show "primary_id \<notin> set (map artifact_primary (fst (main tk gdf a)))"
  proof
    assume "primary_id \<in> set (map artifact_primary (fst (main tk gdf a)))"
    then obtain f where f: "f \<in> set (fst (main tk gdf a))"
      and p: "artifact_primary f = primary_id"
      by auto
    from f have "rows_with_id gdf (artifact_primary f) \<noteq> []"
      unfolding main_def by (rule process_primaries_artifacts)
    with p assms show False by simp
  qed
  show "dissolve_by_name tk [] = []" by (simp add: dissolve_by_name_def)
  show "union_by_name tk [] = []" by (simp add: union_by_name_def)
qed


theorem no_features_no_output_witness:
  "rows_with_id ex_order ''q'' = []
   \<and> build_longform_for_primary grid_tk ex_order ''q'' [''p'', ''s'', ''t''] 0 0 0 None = Inr []
   \<and> build_wide_for_primary grid_tk ex_order ''q'' [''p'', ''s'', ''t''] 0 0 0 None
       = Inr empty_wide
   \<and> process_primaries grid_tk ex_order ex_args [''p'', ''s'', ''t''] [''q''] = ([], None)
   \<and> process_primaries grid_tk ex_order ex_args [''p'', ''s'', ''t''] ([] @ ''q'' # [''p''])
       = process_primaries grid_tk ex_order ex_args [''p'', ''s'', ''t''] ([] @ [''p''])
   \<and> ''q'' \<notin> set (map artifact_primary (fst (main grid_tk ex_order ex_args)))"
  using ex_order_no_q
    no_features_no_output [OF ex_order_no_q, of grid_tk "[''p'', ''s'', ''t'']" 0 0 0 None
      ex_args "[''p'', ''s'', ''t'']" "[]" "[''p'']"]
  by (simp only: simp_thms)

subsection \<open>The rows of the wide table\<close>

lemma wide_region_names:
  assumes "wide_region tk all_gdf primary_id other_ids buffer_feet min_area epsilon prow
             = Inr rows"
  shows "map (\<lambda>r. map_of r primary_id) rows
           = (if has_geometry tk prow then [Some (nameCol prow)] else [])"
proof (cases "has_geometry tk prow")
  case False
  with assms show ?thesis
    by (auto simp: wide_region_def has_geometry_def split: option.splits)
next
  case True
  then obtain g where g: "geometry prow = Some g" "\<not> is_empty tk g"
    by (auto simp: has_geometry_def split: option.splits)
  with assms obtain record_d where
    rec: "wide_others tk (sindex_candidates tk all_gdf (bounds tk g)) primary_id
           (geom_for_intersection tk buffer_feet g) min_area epsilon other_ids
           [(primary_id, nameCol prow)] = Inr record_d"
    and rows: "rows = [record_d]"
    by (auto simp: wide_region_def split: sum.splits)
  from wide_others_frame [OF rec, of primary_id]
  have "map_of record_d primary_id = Some (nameCol prow)" by simp
  with True rows show ?thesis by simp
qed

lemma wide_primaries_names:
  "wide_primaries tk all_gdf primary_id other_ids buffer_feet min_area epsilon regions
     = Inr rows \<Longrightarrow>
   map (\<lambda>r. map_of r primary_id) rows
     = map (\<lambda>prow. Some (nameCol prow)) (filter (has_geometry tk) regions)"
proof (induction regions arbitrary: rows)
  case Nil
  then show ?case by simp
next
  case (Cons prow regions)
  then obtain xs ys where
    xs: "wide_region tk all_gdf primary_id other_ids buffer_feet min_area epsilon prow = Inr xs"
    and ys: "wide_primaries tk all_gdf primary_id other_ids buffer_feet min_area epsilon regions
               = Inr ys"
    and rows: "rows = xs @ ys"
    by (auto simp: then_rows_Inr_iff)
  from wide_region_names [OF xs] Cons.IH [OF ys] rows show ?case by simp
qed

lemma primary_column_build:
  "primary_column
     \<lparr>columns = wide_columns primary_id other_ids,
      data = map (\<lambda>r. map (map_of r) (wide_columns primary_id other_ids)) rows\<rparr>
   = map (\<lambda>r. map_of r primary_id) rows"
  by (simp add: primary_column_def wide_columns_def comp_def)

text \<open>
  Claim C9. The wide build returns one row for every dissolved primary region (of those
  the cap keeps) whose geometry is neither missing nor empty, in their order, whatever
  the cells hold. So the wide table can have rows while the longform result has none: for
  \<open>ex_order\<close> with a minimum area of 1000 the longform result is empty, the wide table has
  a row of empty cells for each of the two regions, and the run writes the wide file only.
\<close>

theorem wide_row_per_region:
  "(build_wide_for_primary tk all_gdf primary_id other_ids buffer_feet min_area epsilon
      max_primaries = Inr wide
    \<longrightarrow> primary_column wide
          = map (\<lambda>prow. Some (nameCol prow))
              (filter (has_geometry tk)
                 (cap_primaries max_primaries
                    (dissolve_by_name tk (rows_with_id all_gdf primary_id)))))
   \<and> build_longform_for_primary grid_tk ex_order ''p'' [''t'', ''s'', ''p''] 0 1000 0 None
       = Inr []
   \<and> build_wide_for_primary grid_tk ex_order ''p'' [''t'', ''s'', ''p''] 0 1000 0 None
       = Inr ex_order_wide_bare
   \<and> \<not> wide_is_empty ex_order_wide_bare
   \<and> main grid_tk ex_order (ex_args\<lparr>arg_min_area_final := 1000\<rparr>)
       = ([Wide_csv ''p'' ex_order_wide_bare], None)"
proof (intro conjI impI)
  assume build: "build_wide_for_primary tk all_gdf primary_id other_ids buffer_feet min_area
      epsilon max_primaries = Inr wide"
  show "primary_column wide
          = map (\<lambda>prow. Some (nameCol prow))
              (filter (has_geometry tk)
                 (cap_primaries max_primaries
                    (dissolve_by_name tk (rows_with_id all_gdf primary_id))))"
  proof (cases "rows_with_id all_gdf primary_id = []")
    case True
    with build have "wide = empty_wide"
      by (simp add: build_wide_no_features)
    with True show ?thesis
      by (simp add: primary_column_def empty_wide_def dissolve_by_name_def
          cap_primaries_def split: option.splits)
  next
    case False
    with build obtain rows where
      rows: "wide_primaries tk all_gdf primary_id other_ids buffer_feet min_area epsilon
          (cap_primaries max_primaries (dissolve_by_name tk (rows_with_id all_gdf primary_id)))
           = Inr rows"
      and wide: "wide = (if rows = [] then empty_wide
               else \<lparr>columns = wide_columns primary_id other_ids,
                     data = map (\<lambda>r. map (map_of r) (wide_columns primary_id other_ids))
                              rows\<rparr>)"
      by (auto simp: build_wide_for_primary_def Let_def split: sum.splits if_splits)
    have "primary_column wide = map (\<lambda>r. map_of r primary_id) rows"
    proof (cases "rows = []")
      case True
      with wide show ?thesis by (simp add: primary_column_def empty_wide_def)
    next
      case False
      with wide show ?thesis by (simp add: primary_column_build)
    qed
    with wide_primaries_names [OF rows] show ?thesis by simp
  qed
next
  show "build_longform_for_primary grid_tk ex_order ''p'' [''t'', ''s'', ''p''] 0 1000 0 None
       = Inr []"
    by code_simp
  show "build_wide_for_primary grid_tk ex_order ''p'' [''t'', ''s'', ''p''] 0 1000 0 None
       = Inr ex_order_wide_bare"
    by code_simp
  show "\<not> wide_is_empty ex_order_wide_bare"
    by (simp add: wide_is_empty_def ex_order_wide_bare_def)
  show "main grid_tk ex_order (ex_args\<lparr>arg_min_area_final := 1000\<rparr>)
       = ([Wide_csv ''p'' ex_order_wide_bare], None)"
    by code_simp
qed

theorem wide_row_per_region_witness:
  "build_wide_for_primary grid_tk ex_order ''p'' [''t'', ''s'', ''p''] 0 1000 0 None
     = Inr ex_order_wide_bare
   \<and> primary_column ex_order_wide_bare
     = map (\<lambda>prow. Some (nameCol prow))
         (filter (has_geometry grid_tk)
            (cap_primaries None (dissolve_by_name grid_tk (rows_with_id ex_order ''p''))))
   \<and> primary_column ex_order_wide_bare = [Some ''A'', Some ''B'']"
proof -
  have col: "primary_column ex_order_wide_bare = [Some ''A'', Some ''B'']"
    by (simp add: primary_column_def ex_order_wide_bare_def)
  from wide_row_per_region [of grid_tk ex_order "''p''" "[''t'', ''s'', ''p'']" 0 1000 0 None
      ex_order_wide_bare] col
  show ?thesis by simp
qed

subsection \<open>Missing and empty geometries\<close>



















subsection \<open>Regions of an area at most epsilon\<close>

text \<open>
  Claim C2 does not hold of the wide builder. The longform loop skips a region whose own
  area is at most epsilon; the wide loop has no such test. With epsilon 1 the region of
  \<open>ex_degenerate\<close>, of area 1, gives no longform row and still has its row in the wide
  table.
\<close>

theorem degenerate_region_has_wide_row:
  "area grid_tk [(0, 0)] \<le> 1
   \<and> build_longform_for_primary grid_tk ex_degenerate ''p'' [''t''] 0 0 1 None = Inr []
   \<and> build_wide_for_primary grid_tk ex_degenerate ''p'' [''t''] 0 0 1 None
       = Inr \<lparr>columns = [''p'', ''t''], data = [[Some ''P'', Some []]]\<rparr>"
  by code_simp

text \<open>
  Claim C1 does not hold for such a region when the buffer is positive: with a buffer of 1
  the region grows to the nine squares of the target, the intersection of area 9 passes
  the threshold, and the wide cell names \<open>X\<close> while the longform result has no row.
\<close>

theorem degenerate_region_membership_differs:
  "area grid_tk [(0, 0)] \<le> 1
   \<and> build_longform_for_primary grid_tk ex_degenerate ''p'' [''t''] 1 0 1 None = Inr []
   \<and> wide_pair_names grid_tk ex_degenerate 1 0 1 [(0, 0)] ''t'' = Inr [''X'']
   \<and> build_wide_for_primary grid_tk ex_degenerate ''p'' [''t''] 1 0 1 None
       = Inr \<lparr>columns = [''p'', ''t''], data = [[Some ''P'', Some ''X'']]\<rparr>"
  by code_simp

subsection \<open>Further properties of the builders\<close>

text \<open>
  Where the two builders do agree. Both run their loop over the same name unions with the
  same geometry and the same thresholds. When every union is present and not empty and
  the primary area is not zero, the names of the rows the longform loop appends are, in
  order, the names the wide loop keeps.
\<close>

theorem membership_agrees_past_guards:
  assumes "\<forall>(t_name, t_union) \<in> set us. \<exists>u. t_union = Some u \<and> \<not> is_empty tk u"
    and "p_area \<noteq> 0"
  shows "\<exists>rows names.
           longform_unions tk primary_id p_name p_area p_geom other_id min_area epsilon us
             = Inr rows
         \<and> wide_keep_names tk p_geom min_area epsilon us = Inr names
         \<and> map other_geography_namecol rows = names"
  using assms(1)
proof (induction us)
  case Nil
  show ?case by simp
next
  case (Cons x us)
  obtain t_name t_union where x: "x = (t_name, t_union)" by (cases x)
  with Cons.prems obtain u where u: "t_union = Some u" "\<not> is_empty tk u" by auto
  from Cons obtain rows names where
    rows: "longform_unions tk primary_id p_name p_area p_geom other_id min_area epsilon us
             = Inr rows"
    and names: "wide_keep_names tk p_geom min_area epsilon us = Inr names"
    and same: "map other_geography_namecol rows = names"
    by auto
  show ?case
  proof (cases "max min_area epsilon < inter_area tk p_geom u")
    case True
    with x u rows names assms(2) have
      "longform_unions tk primary_id p_name p_area p_geom other_id min_area epsilon (x # us)
         = Inr (overlap_row primary_id p_name other_id t_name p_area (inter_area tk p_geom u)
                # rows)"
      "wide_keep_names tk p_geom min_area epsilon (x # us) = Inr (t_name # names)"
      by auto
    with same show ?thesis by (simp add: overlap_row_def)
  next
    case False
    with x u rows names have
      "longform_unions tk primary_id p_name p_area p_geom other_id min_area epsilon (x # us)
         = Inr rows"
      "wide_keep_names tk p_geom min_area epsilon (x # us) = Inr names"
      by auto
    with same show ?thesis by simp
  qed
qed

theorem membership_agrees_past_guards_witness:
  "\<exists>rows names.
     longform_unions grid_tk ''p'' ''B'' 2 [(0, 0), (0, 1)] ''t'' 0 0
       [(''W'', Some [(0, 1)]), (''X'', Some [(0, 0), (0, 1), (3, 0)])] = Inr rows
   \<and> wide_keep_names grid_tk [(0, 0), (0, 1)] 0 0
       [(''W'', Some [(0, 1)]), (''X'', Some [(0, 0), (0, 1), (3, 0)])] = Inr names
   \<and> map other_geography_namecol rows = names"
proof -
  have unions: "\<forall>(t_name, t_union)
      \<in> set [(''W'', Some [(0, 1)]), (''X'', Some [(0 :: int, 0 :: int), (0, 1), (3, 0)])].
      \<exists>u. t_union = Some u \<and> \<not> is_empty grid_tk u"
    by (simp add: grid_tk_def)
  have nz: "(2 :: real) \<noteq> 0" by simp
  from membership_agrees_past_guards [OF unions nz] show ?thesis .
qed

text \<open>
  Self-exclusion: every longform row carries the primary id of the build, and its other
  id is one of the given other ids and differs from the primary id.
\<close>

theorem no_self_overlap:
  assumes "build_longform_for_primary tk all_gdf primary_id other_ids buffer_feet min_area
             epsilon max_primaries = Inr rows"
    and "r \<in> set rows"
  shows "primary_geography_id r = primary_id \<and> other_geography_id r \<noteq> primary_id
       \<and> other_geography_id r \<in> set other_ids"
proof -
  from longform_row_origin [OF assms] obtain prow g other_id t_name u where
    prow: "prow \<in> set (cap_primaries max_primaries
                         (dissolve_by_name tk (rows_with_id all_gdf primary_id)))"
    and g: "geometry prow = Some g" "\<not> is_empty tk g" "epsilon < area tk g"
      "area tk g \<noteq> 0"
    and oid: "other_id \<in> set other_ids" "other_id \<noteq> primary_id"
    and u: "(t_name, Some u) \<in> set (union_by_name tk
               (rows_with_id (sindex_candidates tk all_gdf (bounds tk g)) other_id))"
      "\<not> is_empty tk u"
      "max min_area epsilon < inter_area tk (geom_for_intersection tk buffer_feet g) u"
    and r: "r = overlap_row primary_id (nameCol prow) other_id t_name (area tk g)
                  (inter_area tk (geom_for_intersection tk buffer_feet g) u)"
    by (elim exE conjE) (rule that)
  from oid show ?thesis unfolding r overlap_row_def by simp
qed

theorem no_self_overlap_witness:
  "build_longform_for_primary grid_tk ex_order ''p'' [''t'', ''s'', ''p''] 0 0 0 None
     = Inr ex_order_rows
   \<and> primary_geography_id (ex_order_rows ! 0) = ''p''
   \<and> other_geography_id (ex_order_rows ! 0) \<noteq> ''p''
   \<and> other_geography_id (ex_order_rows ! 0) \<in> set [''t'', ''s'', ''p'']"
proof -
  have mem: "ex_order_rows ! 0 \<in> set ex_order_rows"
    by (simp add: ex_order_rows_def)
  from no_self_overlap [OF ex_order_longform mem] ex_order_longform
  show ?thesis by blast
qed

text \<open>
  The longform loop skips a region whose own area is at most epsilon: the region gives no
  row, and the loop goes on with the remaining regions.
\<close>

theorem small_region_no_longform_rows:
  assumes "geometry prow = Some g" and "area tk g \<le> epsilon"
  shows "longform_region tk all_gdf primary_id other_ids buffer_feet min_area epsilon prow
           = Inr []
       \<and> longform_primaries tk all_gdf primary_id other_ids buffer_feet min_area epsilon
           (prow # regions)
         = longform_primaries tk all_gdf primary_id other_ids buffer_feet min_area epsilon
             regions"
  using assms by (simp add: longform_region_def)

theorem small_region_no_longform_rows_witness:
  "geometry (feat ''p'' ''P'' [(0, 0)]) = Some [(0, 0)]
   \<and> area grid_tk [(0, 0)] \<le> 1
   \<and> longform_region grid_tk ex_degenerate ''p'' [''t''] 1 0 1 (feat ''p'' ''P'' [(0, 0)])
       = Inr []
   \<and> longform_primaries grid_tk ex_degenerate ''p'' [''t''] 1 0 1 [feat ''p'' ''P'' [(0, 0)]]
       = longform_primaries grid_tk ex_degenerate ''p'' [''t''] 1 0 1 []"
proof -
  have geom: "geometry (feat ''p'' ''P'' [(0, 0)]) = Some [(0, 0)]"
    by (simp add: feat_def)
  have small: "area grid_tk [(0, 0)] \<le> 1"
    by (simp add: grid_tk_def)
  from small_region_no_longform_rows [OF geom small] geom small
  show ?thesis by simp
qed

end
